theory Spec2Isabelle
  imports Main
begin

section \<open>Python values shared by both modules\<close>

text \<open>
  The sources are Python 2 (\<open>base64.b64encode\<close> is applied to a \<open>str\<close>), so a string is
  a sequence of 8-bit characters: \<open>string\<close>. An exception is a value of \<open>pyexc\<close>, named
  after the class the source raises and carrying its message; a function that can raise
  returns \<open>pyexc + 'a\<close> with \<open>Inl\<close> for the exception. \<open>ArgumentError\<close> and \<open>ParseError\<close> are
  classes that the spec names; no line of the two modules raises either.
\<close>

datatype pyexc =
    ValueError string
  | AttributeError string
  | NameError string
  | ArgumentError string
  | ParseError string
  | AssertionError string
  | OtherException string

definition raises_ParseError :: "pyexc + 'a \<Rightarrow> bool" where
  "raises_ParseError res = (case res of Inl (ParseError msg) \<Rightarrow> True | _ \<Rightarrow> False)"

text \<open>\<open>str.lower\<close> on a byte string changes the letters A to Z only.\<close>

definition lower :: "char \<Rightarrow> char" where
  "lower c =
     (case map_of (zip ''ABCDEFGHIJKLMNOPQRSTUVWXYZ'' ''abcdefghijklmnopqrstuvwxyz'') c of
        None \<Rightarrow> c
      | Some l \<Rightarrow> l)"

text \<open>\<open>s.replace(c, '')\<close> for a single character \<open>c\<close>.\<close>

definition remove_char :: "char \<Rightarrow> string \<Rightarrow> string" where
  "remove_char c s = filter (\<lambda>x. x \<noteq> c) s"

section \<open>The regular expressions of the \<open>re\<close> module that the sources use\<close>

text \<open>
  A pattern is a term of \<open>regex\<close>. \<open>Cls S\<close> is a character class \<open>[...]\<close> and \<open>NCls S\<close> a
  negated one \<open>[^...]\<close>; \<open>Star True r\<close> is the greedy \<open>r*\<close> and \<open>Star False r\<close> the lazy
  \<open>r*?\<close>; \<open>Group n r\<close> is the n-th capturing group, \<open>Bol\<close> is \<open>^\<close> and \<open>Eol\<close> is \<open>$\<close>.
\<close>

datatype regex =
    Bol
  | Eol
  | Chr char
  | Cls "char set"
  | NCls "char set"
  | Seq regex regex
  | Star bool regex
  | Group nat regex

text \<open>\<open>r+\<close> is \<open>rr*\<close>, and a sequence of several parts nests to the right.\<close>

definition Plus :: "bool \<Rightarrow> regex \<Rightarrow> regex" where
  "Plus greedy r = Seq r (Star greedy r)"

fun seqs :: "regex list \<Rightarrow> regex" where
  "seqs [] = Star True (Cls {})"
| "seqs [r] = r"
| "seqs (r # rs) = Seq r (seqs rs)"

fun lit :: "string \<Rightarrow> regex list" where
  "lit [] = []"
| "lit (c # cs) = Chr c # lit cs"

text \<open>
  \<open>\s\<close> in a byte-string pattern without flags: space, \<open>\t\<close>, \<open>\n\<close>, \<open>\r\<close>, \<open>\f\<close>, \<open>\v\<close>.
  \<open>\d\<close> is \<open>[0-9]\<close>.
\<close>

definition newline :: char where
  "newline = CHR 0x0A"

definition dquote :: char where
  "dquote = CHR 0x22"

definition whitespace :: "char set" where
  "whitespace = {CHR '' '', CHR 0x09, CHR 0x0A, CHR 0x0D, CHR 0x0C, CHR 0x0B}"

definition digit_chars :: "char set" where
  "digit_chars = set ''0123456789''"

text \<open>
  The matcher is the backtracking one: a state is the text to the left of the cursor, the
  text to its right and the groups captured so far, and \<open>rmatch r st\<close> lists every state
  in which a match of \<open>r\<close> begun in \<open>st\<close> can end, in the order in which backtracking tries
  them. A greedy star tries one more iteration before it tries to stop, a lazy one the
  other way round. An iteration that consumes nothing is not repeated (the patterns of
  the sources have none: every starred part begins with a character).
\<close>

record mstate =
  consumed :: string
  remaining :: string
  groups :: "(nat \<times> string) list"

definition advance :: "mstate \<Rightarrow> mstate" where
  "advance st = st\<lparr>consumed := consumed st @ [hd (remaining st)], remaining := tl (remaining st)\<rparr>"

definition capture :: "nat \<Rightarrow> mstate \<Rightarrow> mstate \<Rightarrow> mstate" where
  "capture n st st' =
     st'\<lparr>groups := (n, drop (length (consumed st)) (consumed st')) # groups st'\<rparr>"

function rmatch :: "regex \<Rightarrow> mstate \<Rightarrow> mstate list" where
  "rmatch Bol st = (if consumed st = [] then [st] else [])"
| "rmatch Eol st = (if remaining st = [] \<or> remaining st = [newline] then [st] else [])"
| "rmatch (Chr c) st =
     (if remaining st \<noteq> [] \<and> hd (remaining st) = c then [advance st] else [])"
| "rmatch (Cls S) st =
     (if remaining st \<noteq> [] \<and> hd (remaining st) \<in> S then [advance st] else [])"
| "rmatch (NCls S) st =
     (if remaining st \<noteq> [] \<and> hd (remaining st) \<notin> S then [advance st] else [])"
| "rmatch (Seq r1 r2) st = concat (map (rmatch r2) (rmatch r1 st))"
| "rmatch (Star greedy r) st =
     (let more = concat (map (rmatch (Star greedy r))
                   (filter (\<lambda>st'. length (remaining st') < length (remaining st)) (rmatch r st)))
      in if greedy then more @ [st] else st # more)"
| "rmatch (Group n r) st = map (capture n st) (rmatch r st)"
  by pat_completeness auto
termination
  by (relation "inv_image (less_than <*lex*> less_than)
                  (\<lambda>(r, st). (size r, length (remaining st)))") auto

text \<open>
  \<open>pattern.search(s)\<close> tries the start positions from left to right and returns the first
  match that backtracking finds at the first position that has one. A match object is the
  state the match begins in and the state it ends in.
\<close>

fun search_from :: "regex \<Rightarrow> string \<Rightarrow> string \<Rightarrow> (mstate \<times> mstate) option" where
  "search_from r pre [] =
     (case rmatch r \<lparr>consumed = pre, remaining = [], groups = []\<rparr> of
        [] \<Rightarrow> None
      | st # _ \<Rightarrow> Some (\<lparr>consumed = pre, remaining = [], groups = []\<rparr>, st))"
| "search_from r pre (c # cs) =
     (case rmatch r \<lparr>consumed = pre, remaining = c # cs, groups = []\<rparr> of
        [] \<Rightarrow> search_from r (pre @ [c]) cs
      | st # _ \<Rightarrow> Some (\<lparr>consumed = pre, remaining = c # cs, groups = []\<rparr>, st))"

definition search :: "regex \<Rightarrow> string \<Rightarrow> (mstate \<times> mstate) option" where
  "search r s = search_from r [] s"

text \<open>
  \<open>match.group(n)\<close>. In each pattern below from which a group is read, groups 1 and 2 lie
  on the only path through the pattern, so they are set in every match; the empty string
  is returned for a group that is not set.
\<close>

definition group :: "mstate \<times> mstate \<Rightarrow> nat \<Rightarrow> string" where
  "group m n = (case map_of (groups (snd m)) n of None \<Rightarrow> [] | Some s \<Rightarrow> s)"

text \<open>
  \<open>pattern.finditer(s)\<close>: the matches from left to right, each search starting where the
  previous match ended. After a match that ends where its search began (an empty match
  at the start of the search), the next search starts one character further on.
\<close>

function finditer_from :: "regex \<Rightarrow> string \<Rightarrow> string \<Rightarrow> (mstate \<times> mstate) list" where
  "finditer_from r pre s =
     (case search_from r pre s of
        None \<Rightarrow> []
      | Some m \<Rightarrow>
          if length (remaining (snd m)) < length s
          then m # finditer_from r (consumed (snd m)) (remaining (snd m))
          else (case s of [] \<Rightarrow> [m] | c # cs \<Rightarrow> m # finditer_from r (pre @ [c]) cs))"
  by pat_completeness auto
termination
  by (relation "measure (\<lambda>(r, pre, s). length s)") auto

definition finditer :: "regex \<Rightarrow> string \<Rightarrow> (mstate \<times> mstate) list" where
  "finditer r s = finditer_from r [] s"

section \<open>authentication_parameters.py\<close>

definition AUTHORIZATION_URI :: string where
  "AUTHORIZATION_URI = ''authorization_uri''"

definition RESOURCE :: string where
  "RESOURCE = ''resource''"

definition WWW_AUTHENTICATE_HEADER :: string where
  "WWW_AUTHENTICATE_HEADER = ''www-authenticate''"

record AuthenticationParameters =
  authorization_uri :: string
  resource :: "string option"

subsection \<open>The three patterns of \<open>parse_challenge\<close>\<close>

text \<open>The key \<open>([^,\s="]+?)\<close> as group \<open>n\<close> and the value \<open>([^"]*?)\<close> as group \<open>n\<close>.\<close>

definition key_chars :: "char set" where
  "key_chars = {CHR '','', CHR ''='', dquote} \<union> whitespace"

definition key_group :: "nat \<Rightarrow> regex" where
  "key_group n = Group n (Plus False (NCls key_chars))"

definition value_group :: "nat \<Rightarrow> regex" where
  "value_group n = Group n (Star False (NCls {dquote}))"

text \<open>\<open>^\s*Bearer\s+([^,\s="]+?)="([^"]*?)"\s*(,\s*([^,\s="]+?)="([^"]*?)"\s*)*$\<close>\<close>

definition bearer_challenge_structure_validation :: regex where
  "bearer_challenge_structure_validation =
     seqs ([Bol, Star True (Cls whitespace)] @ lit ''Bearer'' @
           [Plus True (Cls whitespace), key_group 1, Chr CHR ''='', Chr dquote,
            value_group 2, Chr dquote, Star True (Cls whitespace),
            Star True (Group 3 (seqs [Chr CHR '','', Star True (Cls whitespace),
                                      key_group 4, Chr CHR ''='', Chr dquote,
                                      value_group 5, Chr dquote,
                                      Star True (Cls whitespace)])),
            Eol])"

text \<open>\<open>^\s*Bearer\s+([^,\s="]+?)="([^"]*?)"\s*\<close>\<close>

definition first_key_value_pair_regex :: regex where
  "first_key_value_pair_regex =
     seqs ([Bol, Star True (Cls whitespace)] @ lit ''Bearer'' @
           [Plus True (Cls whitespace), key_group 1, Chr CHR ''='', Chr dquote,
            value_group 2, Chr dquote, Star True (Cls whitespace)])"

text \<open>\<open>(?:,\s*([^,\s="]+?)="([^"]*?)"\s*)\<close>\<close>

definition all_other_key_value_pair_regex :: regex where
  "all_other_key_value_pair_regex =
     seqs [Chr CHR '','', Star True (Cls whitespace), key_group 1, Chr CHR ''='',
           Chr dquote, value_group 2, Chr dquote, Star True (Cls whitespace)]"

subsection \<open>\<open>parse_challenge\<close>\<close>

definition store_pair :: "mstate \<times> mstate \<Rightarrow> (string \<rightharpoonup> string) \<Rightarrow> (string \<rightharpoonup> string)" where
  "store_pair m challenge_parameters = challenge_parameters(group m 1 \<mapsto> group m 2)"

definition parse_challenge :: "string \<Rightarrow> pyexc + (string \<rightharpoonup> string)" where
  "parse_challenge challenge =
     (if search bearer_challenge_structure_validation challenge = None
      then Inl (ValueError ''The challenge is not parseable as an RFC6750 OAuth2 challenge'')
      else
        let challenge_parameters =
              (case search first_key_value_pair_regex challenge of
                 Some m \<Rightarrow> store_pair m Map.empty
               | None \<Rightarrow> Map.empty)
        in Inr (fold store_pair (finditer all_other_key_value_pair_regex challenge)
                  challenge_parameters))"

subsection \<open>\<open>create_authentication_parameters_from_header\<close>\<close>

text \<open>
  Modelled from the spec: \<open>argument.validate_string_param\<close> is not among the sources. The
  spec says of it: the challenge must be non-empty, and the operation fails with
  ArgumentError otherwise.
\<close>

definition validate_string_param :: "string \<Rightarrow> string \<Rightarrow> pyexc option" where
  "validate_string_param v name = (if v = [] then Some (ArgumentError name) else None)"

text \<open>
  \<open>challenge_parameters.get(k)\<close> is the lookup of the map; \<open>not authorization_uri\<close> holds
  for \<open>None\<close> and for the empty string.
\<close>

definition no_authorization_uri_message :: string where
  "no_authorization_uri_message = ''Could not find 'authorization_uri' in challenge header.''"

definition create_authentication_parameters_from_header ::
  "string \<Rightarrow> pyexc + AuthenticationParameters" where
  "create_authentication_parameters_from_header challenge =
     (case validate_string_param challenge ''challenge'' of
        Some e \<Rightarrow> Inl e
      | None \<Rightarrow>
          (case parse_challenge challenge of
             Inl e \<Rightarrow> Inl e
           | Inr challenge_parameters \<Rightarrow>
               (case challenge_parameters AUTHORIZATION_URI of
                  None \<Rightarrow> Inl (ValueError no_authorization_uri_message)
                | Some uri \<Rightarrow>
                    if uri = []
                    then Inl (ValueError no_authorization_uri_message)
                    else Inr \<lparr>authorization_uri = uri,
                              resource = challenge_parameters RESOURCE\<rparr>)))"

subsection \<open>\<open>create_authentication_parameters_from_response\<close>\<close>

text \<open>
  The response is any Python object. \<open>truth\<close> is what \<open>not response\<close> tests: false for
  \<open>None\<close> and for an object whose class says so. \<open>status_code\<close> and \<open>headers\<close> are \<open>None\<close>
  when the attribute is missing or is Python's \<open>None\<close>; \<open>not response.status_code\<close> holds
  then and for the integer 0, \<open>not response.headers\<close> holds then and for an empty
  mapping.

  The header mapping is an object of which the code asks the truth value and calls \<open>get\<close>.
  Two kinds of mapping are told apart: Python's \<open>dict\<close>, whose \<open>get\<close> compares the keys
  exactly, and the \<open>CaseInsensitiveDict\<close> of the \<open>requests\<close> library, which the responses of
  \<open>requests.get\<close> carry and whose \<open>get\<close> compares the keys with their letters lowered. Each
  holds its entries as stored, the key in the case it was stored in, no two entries under
  the same key (for the second kind: the same key up to case). Both are falsy when they
  hold no entry.
\<close>

datatype header_mapping =
    Dict "(string \<times> string) list"
  | CaseInsensitiveDict "(string \<times> string) list"

fun items :: "header_mapping \<Rightarrow> (string \<times> string) list" where
  "items (Dict kvs) = kvs"
| "items (CaseInsensitiveDict kvs) = kvs"

fun mapping_get :: "header_mapping \<Rightarrow> string \<Rightarrow> string option" where
  "mapping_get (Dict kvs) key = map_of kvs key"
| "mapping_get (CaseInsensitiveDict kvs) key =
     map_of (map (\<lambda>(k, v). (map lower k, v)) kvs) (map lower key)"

record response =
  truth :: bool
  status_code :: "int option"
  headers :: "header_mapping option"

text \<open>
  Modelled from the spec: \<open>constants.HttpError\<close> is not among the sources. The spec gives
  the value of \<open>HttpError.UNAUTHORIZED\<close>: status code 401.
\<close>

definition UNAUTHORIZED :: int where
  "UNAUTHORIZED = 401"

text \<open>\<open>'{0}'.format(n)\<close> for an integer: its decimal digits, after a minus sign if negative.\<close>

definition digit_char :: "nat \<Rightarrow> char" where
  "digit_char d = ''0123456789'' ! d"

function str_nat :: "nat \<Rightarrow> string" where
  "str_nat n = (if n < 10 then [digit_char n] else str_nat (n div 10) @ [digit_char (n mod 10)])"
  by pat_completeness auto
termination
  by (relation "measure (\<lambda>n. n)") auto

definition str_int :: "int \<Rightarrow> string" where
  "str_int i = (if i < 0 then CHR ''-'' # str_nat (nat (- i)) else str_nat (nat i))"

definition status_message :: "int \<Rightarrow> string" where
  "status_message code =
     ''The response status code does not correspond to an OAuth challenge.  '' @
     ''The statusCode is expected to be 401 but is: '' @ str_int code"

definition no_challenge_message :: string where
  "no_challenge_message =
     ''The response does not contain a WWW-Authenticate header that can be '' @
     ''used to determine the authority_uri and resource.''"

definition create_authentication_parameters_from_response ::
  "response \<Rightarrow> pyexc + AuthenticationParameters" where
  "create_authentication_parameters_from_response r =
     (if \<not> truth r then Inl (AttributeError ''Missing required parameter: response'')
      else
        (case status_code r of
           None \<Rightarrow> Inl (AttributeError
                      ''The response parameter does not have the expected HTTP status_code field'')
         | Some code \<Rightarrow>
             if code = 0
             then Inl (AttributeError
                      ''The response parameter does not have the expected HTTP status_code field'')
             else
               (case headers r of
                  None \<Rightarrow> Inl (AttributeError ''There were no headers found in the response.'')
                | Some hs \<Rightarrow>
                    if items hs = []
                    then Inl (AttributeError ''There were no headers found in the response.'')
                    else if code \<noteq> UNAUTHORIZED then Inl (ValueError (status_message code))
                    else
                      (case mapping_get hs WWW_AUTHENTICATE_HEADER of
                         None \<Rightarrow> Inl (ValueError no_challenge_message)
                       | Some challenge \<Rightarrow>
                           if challenge = [] then Inl (ValueError no_challenge_message)
                           else create_authentication_parameters_from_header challenge))))"

subsection \<open>\<open>create_authentication_parameters_from_url\<close>\<close>

text \<open>
  The URL is a string or an object: \<open>url_truth\<close> is what \<open>not url\<close> tests, \<open>has_geturl\<close> is
  \<open>hasattr(url, 'geturl')\<close>, and \<open>get_url\<close> is what evaluating \<open>url.get_url()\<close> gives (an
  AttributeError when the object has no such method).
\<close>

record url_object =
  url_truth :: bool
  has_geturl :: bool
  get_url :: "pyexc + string"

datatype url_arg = UrlStr string | UrlObj url_object

definition validate_url_object :: "url_object \<Rightarrow> pyexc option" where
  "validate_url_object url =
     (if \<not> url_truth url \<or> \<not> has_geturl url
      then Some (AttributeError ''Parameter is of wrong type: url'') else None)"

text \<open>
  A callback is called with an error and a result, and returns or raises: \<open>Some e\<close> is the
  exception it raises. Its first argument here is the number of calls made before this
  one, so that a callback may answer each call differently. A record of the calls made,
  in order, is the observable behaviour of the operation, with the exception that leaves
  it, if any.
\<close>

type_synonym callback =
  "nat \<Rightarrow> pyexc option \<Rightarrow> AuthenticationParameters option \<Rightarrow> pyexc option"

datatype callback_arg = NotCallable | Callable callback

type_synonym calls = "(pyexc option \<times> AuthenticationParameters option) list"

text \<open>
  Modelled from the spec: \<open>argument.validate_callback_type\<close> is not among the sources. The
  spec says of it: a non-callable callback is an ArgumentError.
\<close>

definition validate_callback_type :: "callback_arg \<Rightarrow> pyexc option" where
  "validate_callback_type cb =
     (case cb of NotCallable \<Rightarrow> Some (ArgumentError ''callback'') | Callable _ \<Rightarrow> None)"

text \<open>
  The collaborators that are not among the sources are parameters, and each may raise:
  \<open>prepare\<close> stands for lines 160 to 168 and the header lookup of line 170 (the log context,
  the logger, its debug message, the request options and \<open>options['headers']\<close>) and gives
  the request headers; \<open>requests_get\<close> is \<open>requests.get\<close>; \<open>logger_error\<close> is \<open>logger.error\<close>.
\<close>

record 'h collaborators =
  prepare :: "string \<Rightarrow> string \<Rightarrow> pyexc + 'h"
  requests_get :: "string \<Rightarrow> 'h \<Rightarrow> pyexc + response"
  logger_error :: "string \<Rightarrow> pyexc \<Rightarrow> pyexc option"

definition invoke ::
  "callback \<Rightarrow> calls \<Rightarrow> pyexc option \<Rightarrow> AuthenticationParameters option
   \<Rightarrow> calls \<times> pyexc option" where
  "invoke cb made err res = (made @ [(err, res)], cb (length made) err res)"

definition challenge_url_of :: "url_arg \<Rightarrow> pyexc + string" where
  "challenge_url_of url =
     (case url of
        UrlStr s \<Rightarrow> Inr s
      | UrlObj u \<Rightarrow> (case validate_url_object u of Some e \<Rightarrow> Inl e | None \<Rightarrow> get_url u))"

text \<open>
  The body of the outer \<open>try\<close>: the calls it makes and the exception that leaves it. An
  exception raised inside one of the two inner handlers (by the logger or by the callback)
  leaves the body.
\<close>

definition try_body ::
  "'h collaborators \<Rightarrow> url_arg \<Rightarrow> callback \<Rightarrow> string \<Rightarrow> calls \<times> pyexc option" where
  "try_body env url cb correlation_id =
     (case challenge_url_of url of
        Inl e \<Rightarrow> ([], Some e)
      | Inr challenge_url \<Rightarrow>
          (case prepare env challenge_url correlation_id of
             Inl e \<Rightarrow> ([], Some e)
           | Inr hdrs \<Rightarrow>
               (case requests_get env challenge_url hdrs of
                  Inl exp \<Rightarrow>
                    (case logger_error env ''Authentication parameters http get failed.'' exp of
                       Some e \<Rightarrow> ([], Some e)
                     | None \<Rightarrow> invoke cb [] (Some exp) None)
                | Inr resp \<Rightarrow>
                    (case create_authentication_parameters_from_response resp of
                       Inl exp \<Rightarrow>
                         (case logger_error env
                                 ''Unable to parse response in to authentication parameters.'' exp of
                            Some e \<Rightarrow> ([], Some e)
                          | None \<Rightarrow> invoke cb [] (Some exp) None)
                     | Inr parameters \<Rightarrow> invoke cb [] None (Some parameters)))))"

definition create_authentication_parameters_from_url ::
  "'h collaborators \<Rightarrow> url_arg \<Rightarrow> callback_arg \<Rightarrow> string \<Rightarrow> calls \<times> pyexc option" where
  "create_authentication_parameters_from_url env url callback correlation_id =
     (case callback of
        NotCallable \<Rightarrow> ([], validate_callback_type NotCallable)
      | Callable cb \<Rightarrow>
          (case try_body env url cb correlation_id of
             (made, None) \<Rightarrow> (made, None)
           | (made, Some exp) \<Rightarrow> invoke cb made (Some exp) None))"

section \<open>self_signed_jwt.py\<close>

subsection \<open>Thumbprints\<close>

definition NumCharIn128BitHexString :: nat where
  "NumCharIn128BitHexString = 128 div 8 * 2"

definition numCharIn160BitHexString :: nat where
  "numCharIn160BitHexString = 160 div 8 * 2"

text \<open>\<open>^[a-f\d]*$\<close>\<close>

definition ThumbprintRegEx :: regex where
  "ThumbprintRegEx = seqs [Bol, Star True (Cls (set ''abcdef'' \<union> digit_chars)), Eol]"

text \<open>
  Modelled from the spec: \<open>Logger.create_error\<close> is not among the sources. The spec says
  of the failures that the builder raises through it: they are AssertionErrors carrying
  the message.
\<close>

definition create_error :: "string \<Rightarrow> pyexc" where
  "create_error msg = AssertionError msg"

definition raise_on_invalid_thumbprint :: "string \<Rightarrow> pyexc option" where
  "raise_on_invalid_thumbprint thumbprint =
     (let thumbprint_sizes = [NumCharIn128BitHexString, numCharIn160BitHexString]
      in if length thumbprint \<notin> set thumbprint_sizes \<or> search ThumbprintRegEx thumbprint = None
         then Some (create_error ''The thumbprint does not match a known format'')
         else None)"

definition reduce_thumbprint :: "string \<Rightarrow> pyexc + string" where
  "reduce_thumbprint thumbprint =
     (let canonical = remove_char CHR '':'' (remove_char CHR '' '' (map lower thumbprint))
      in case raise_on_invalid_thumbprint canonical of
           Some e \<Rightarrow> Inl e
         | None \<Rightarrow> Inr canonical)"

subsection \<open>The \<open>x5t\<close> header value\<close>

text \<open>\<open>base64.b64encode\<close>: three bytes give four characters of the standard alphabet.\<close>

definition b64_alphabet :: string where
  "b64_alphabet = ''ABCDEFGHIJKLMNOPQRSTUVWXYZabcdefghijklmnopqrstuvwxyz0123456789+/''"

definition b64_char :: "nat \<Rightarrow> char" where
  "b64_char n = b64_alphabet ! (n mod 64)"

fun b64encode :: "string \<Rightarrow> string" where
  "b64encode [] = []"
| "b64encode [a] =
     (let n = of_char a * 65536
      in [b64_char (n div 262144), b64_char (n div 4096), CHR ''='', CHR ''=''])"
| "b64encode [a, b] =
     (let n = of_char a * 65536 + of_char b * 256
      in [b64_char (n div 262144), b64_char (n div 4096), b64_char (n div 64), CHR ''=''])"
| "b64encode (a # b # c # rest) =
     (let n = of_char a * 65536 + of_char b * 256 + of_char c
      in [b64_char (n div 262144), b64_char (n div 4096), b64_char (n div 64), b64_char n]
         @ b64encode rest)"

text \<open>
  Modelled from the spec: \<open>util.convert_regular_to_urlsafe_b64encoded_string\<close> is not among
  the sources. The spec says of it: replace \<open>+\<close> by \<open>-\<close> and \<open>/\<close> by \<open>_\<close>, strip the padding.
\<close>

definition convert_regular_to_urlsafe_b64encoded_string :: "string \<Rightarrow> string" where
  "convert_regular_to_urlsafe_b64encoded_string regular =
     remove_char CHR ''=''
       (map (\<lambda>c. if c = CHR ''+'' then CHR ''-'' else if c = CHR ''/'' then CHR ''_'' else c)
          regular)"

definition create_x5t_value :: "string \<Rightarrow> string" where
  "create_x5t_value thumbprint =
     (let hex_str = remove_char CHR '' '' (remove_char CHR '':'' thumbprint);
          b64_str = b64encode hex_str
      in convert_regular_to_urlsafe_b64encoded_string b64_str)"

text \<open>
  What the spec compares the \<open>x5t\<close> value with: the bytes that a string of hexadecimal
  digits stands for, two digits to a byte, and their URL-safe base64 encoding.
\<close>

definition hex_value :: "char \<Rightarrow> nat" where
  "hex_value c = (case map_of (zip ''0123456789abcdef'' [0 ..< 16]) c of None \<Rightarrow> 0 | Some v \<Rightarrow> v)"

fun hex_decode :: "string \<Rightarrow> string" where
  "hex_decode (h # l # rest) = char_of (hex_value h * 16 + hex_value l) # hex_decode rest"
| "hex_decode _ = []"

definition spec_x5t_value :: "string \<Rightarrow> string" where
  "spec_x5t_value thumbprint =
     convert_regular_to_urlsafe_b64encoded_string (b64encode (hex_decode thumbprint))"

subsection \<open>The payload\<close>

text \<open>
  \<open>_get_date_now\<close> reads the clock of the host, as a naive local \<open>datetime\<close>, and
  \<open>_get_new_jwt_id\<close> draws an identifier. Both are parameters, as is \<open>time.mktime\<close>, which
  takes a broken-down local time to the seconds since the epoch by the time zone rules of
  the host. A naive \<open>datetime\<close> is a count of microseconds on the local calendar, from a
  fixed origin: adding a \<open>timedelta\<close> adds its microseconds, and \<open>timetuple\<close> keeps the whole
  seconds. The state counts the readings of the clock and the draws made so far, so that
  \<open>get_date_now host n\<close> is what the clock shows at the reading after \<open>n\<close> others, and
  \<open>get_new_jwt_id host n\<close> the identifier drawn after \<open>n\<close> others. \<open>log_debug\<close> is \<open>_log.debug\<close>
  on the message made of \<open>expires\<close> and \<open>now\<close>; it may raise.

  \<open>Jwt.SELF_SIGNED_JWT_LIFETIME\<close>, a number of minutes, and the keys of the payload are in
  \<open>constants.py\<close>, which is not among the sources: the lifetime is a parameter, and the
  payload is a record with a field for each key.
\<close>

record 'id host =
  get_date_now :: "nat \<Rightarrow> int"
  mktime :: "int \<Rightarrow> int"
  get_new_jwt_id :: "nat \<Rightarrow> 'id"
  log_debug :: "int \<Rightarrow> int \<Rightarrow> pyexc option"
  SELF_SIGNED_JWT_LIFETIME :: int

record counters =
  readings :: nat
  draws :: nat

record SelfSignedJwt =
  token_endpoint :: string
  client_id :: string

record 'id jwt_payload =
  AUDIENCE :: string
  ISSUER :: string
  SUBJECT :: string
  NOT_BEFORE :: int
  EXPIRES_ON :: int
  JWT_ID :: 'id

definition timetuple :: "int \<Rightarrow> int" where
  "timetuple t = t div 1000000"

definition create_payload ::
  "'id host \<Rightarrow> SelfSignedJwt \<Rightarrow> counters \<Rightarrow> pyexc + ('id jwt_payload \<times> counters)" where
  "create_payload host self st =
     (let now = get_date_now host (readings st);
          st1 = st\<lparr>readings := readings st + 1\<rparr>;
          minutes = SELF_SIGNED_JWT_LIFETIME host * 60 * 1000000;
          expires = now + minutes
      in case log_debug host expires now of
           Some e \<Rightarrow> Inl e
         | None \<Rightarrow>
             Inr (\<lparr>AUDIENCE = token_endpoint self,
                   ISSUER = client_id self,
                   SUBJECT = client_id self,
                   NOT_BEFORE = mktime host (timetuple now),
                   EXPIRES_ON = mktime host (timetuple expires),
                   JWT_ID = get_new_jwt_id host (draws st1)\<rparr>,
                  st1\<lparr>draws := draws st1 + 1\<rparr>))"

subsection \<open>Signing\<close>

text \<open>\<open>s.split(c)\<close> for a single character \<open>c\<close>.\<close>

fun split_str :: "char \<Rightarrow> string \<Rightarrow> string list" where
  "split_str sep [] = [[]]"
| "split_str sep (c # cs) =
     (if c = sep then [] # split_str sep cs
      else (case split_str sep cs of [] \<Rightarrow> [[c]] | x # xs \<Rightarrow> (c # x) # xs))"

text \<open>
  Line 89 reads \<open>len(seqments)\<close>, and no local, global or built-in name \<open>seqments\<close> exists:
  evaluating the condition raises NameError, whatever \<open>segments\<close> is.
\<close>

definition raise_on_invalid_jwt_signature :: "string \<Rightarrow> pyexc option" where
  "raise_on_invalid_jwt_signature jwt =
     (let segments = split_str CHR ''.'' jwt
      in Some (NameError ''global name 'seqments' is not defined''))"

text \<open>\<open>jws.sign\<close> is a parameter: it returns the encoded token or raises.\<close>

definition sign_jwt ::
  "('hd \<Rightarrow> 'pl \<Rightarrow> 'cert \<Rightarrow> pyexc + string) \<Rightarrow> 'hd \<Rightarrow> 'pl \<Rightarrow> 'cert \<Rightarrow> pyexc + string" where
  "sign_jwt jws_sign header payload certificate =
     (case jws_sign header payload certificate of
        Inl e \<Rightarrow> Inl e
      | Inr jwt \<Rightarrow>
          (case raise_on_invalid_jwt_signature jwt of
             Some e \<Rightarrow> Inl e
           | None \<Rightarrow> Inr jwt))"

section \<open>The grammar of the spec\<close>

text \<open>
  The grammar of section 4.1 of the spec, in its words: a key is one or more characters
  other than comma, whitespace, \<open>=\<close> and the double quote; a value is zero or more
  characters other than the double quote; \<open>WS\<close> is zero or more whitespace characters,
  allowed in front, at the end and around the separators; a challenge is \<open>Bearer\<close>, \<open>WS\<close>, a
  pair, and then any number of pairs, each after \<open>WS\<close>, a comma and \<open>WS\<close>.
\<close>

definition is_ws :: "string \<Rightarrow> bool" where
  "is_ws w = list_all (\<lambda>c. c \<in> whitespace) w"

definition is_key :: "string \<Rightarrow> bool" where
  "is_key k = (k \<noteq> [] \<and> list_all (\<lambda>c. c \<notin> key_chars) k)"

definition is_value :: "string \<Rightarrow> bool" where
  "is_value v = list_all (\<lambda>c. c \<noteq> dquote) v"

definition pair_text :: "string \<Rightarrow> string \<Rightarrow> string" where
  "pair_text k v = k @ [CHR ''='', dquote] @ v @ [dquote]"

inductive more_pairs :: "string \<Rightarrow> bool" where
  no_more: "is_ws w \<Longrightarrow> more_pairs w"
| one_more:
    "is_ws w1 \<Longrightarrow> is_ws w2 \<Longrightarrow> is_key k \<Longrightarrow> is_value v \<Longrightarrow> more_pairs t
     \<Longrightarrow> more_pairs (w1 @ [CHR '',''] @ w2 @ pair_text k v @ t)"

definition challenge_grammar :: "string \<Rightarrow> bool" where
  "challenge_grammar s =
     (\<exists>w0 w1 k v t. s = w0 @ ''Bearer'' @ w1 @ pair_text k v @ t \<and>
        is_ws w0 \<and> is_ws w1 \<and> is_key k \<and> is_value v \<and> more_pairs t)"

section \<open>A collaborator setup\<close>

text \<open>
  A response carrying a challenge under the lowercase header name, and collaborators that
  raise nothing and answer every GET with that response.
\<close>

definition challenge_response :: response where
  \<open>challenge_response =
     \<lparr>truth = True, status_code = Some 401,
      headers = Some (Dict [(''www-authenticate'',
                             ''Bearer authorization_uri="https://login.windows.net/t"'')])\<rparr>\<close>

definition quiet_collaborators :: "unit collaborators" where
  "quiet_collaborators =
     \<lparr>prepare = (\<lambda>challenge_url correlation_id. Inr ()),
      requests_get = (\<lambda>challenge_url hdrs. Inr challenge_response),
      logger_error = (\<lambda>msg exp. None)\<rparr>"

text \<open>
  A host in a zone whose clocks go back an hour, from 02:00 to 01:00, on 2 November 2014,
  from four hours behind UTC to five. Its calendar is counted from the local midnight of
  that day, which is 1414900800 seconds after the epoch. Its clock shows 01:55:00 at every
  reading; \<open>mktime\<close> takes a local time before 02:00 for the earlier of the two instants
  that show it. The lifetime is ten minutes, and the identifiers are the numbers of the
  draws.
\<close>

definition clock_change_host :: "nat host" where
  "clock_change_host =
     \<lparr>get_date_now = (\<lambda>n. 6900 * 1000000),
      mktime = (\<lambda>s. if s < 7200 then s + 1414900800 else s + 1414904400),
      get_new_jwt_id = (\<lambda>n. n),
      log_debug = (\<lambda>expires now. None),
      SELF_SIGNED_JWT_LIFETIME = 10\<rparr>"

section \<open>Evaluation\<close>

text \<open>
  The equations of the matcher are unfolded on demand only: the one of a star would
  unfold for ever.
\<close>

declare rmatch.simps [simp del]
declare seqs.simps [simp del]

lemmas pattern_defs =
  bearer_challenge_structure_validation_def first_key_value_pair_regex_def
  all_other_key_value_pair_regex_def ThumbprintRegEx_def key_group_def value_group_def
  Plus_def key_chars_def whitespace_def digit_chars_def dquote_def newline_def seqs.simps

lemmas matcher_defs =
  search_def finditer_def advance_def capture_def group_def store_pair_def Let_def rmatch.simps

lemma parse_challenge_empty:
  "parse_challenge [] =
     Inl (ValueError ''The challenge is not parseable as an RFC6750 OAuth2 challenge'')"
  by (simp add: parse_challenge_def pattern_defs matcher_defs)

lemma parse_challenge_uri_only:
  \<open>parse_challenge ''Bearer authorization_uri="https://login.windows.net/t"'' =
     Inr [''authorization_uri'' \<mapsto> ''https://login.windows.net/t'']\<close>
  by (simp add: parse_challenge_def pattern_defs matcher_defs)

lemma parse_challenge_resource_only:
  \<open>parse_challenge ''Bearer resource="x"'' = Inr [''resource'' \<mapsto> ''x'']\<close>
  by (simp add: parse_challenge_def pattern_defs matcher_defs)

lemma parse_challenge_one_pair:
  \<open>parse_challenge ''Bearer a="b"'' = Inr [''a'' \<mapsto> ''b'']\<close>
  by (simp add: parse_challenge_def pattern_defs matcher_defs)

lemma parse_challenge_no_challenge:
  "parse_challenge ''not a challenge'' =
     Inl (ValueError ''The challenge is not parseable as an RFC6750 OAuth2 challenge'')"
  by (simp add: parse_challenge_def pattern_defs matcher_defs)

lemma from_header_uri_only:
  \<open>create_authentication_parameters_from_header
      ''Bearer authorization_uri="https://login.windows.net/t"'' =
     Inr \<lparr>authorization_uri = ''https://login.windows.net/t'', resource = None\<rparr>\<close>
  by (simp add: create_authentication_parameters_from_header_def validate_string_param_def
      parse_challenge_uri_only AUTHORIZATION_URI_def RESOURCE_def)

lemma challenge_response_parameters:
  "create_authentication_parameters_from_response challenge_response =
     Inr \<lparr>authorization_uri = ''https://login.windows.net/t'', resource = None\<rparr>"
  by (simp add: create_authentication_parameters_from_response_def challenge_response_def
      UNAUTHORIZED_def WWW_AUTHENTICATE_HEADER_def from_header_uri_only)

lemma str_int_200: "str_int 200 = ''200''"
  by (simp add: str_int_def digit_char_def)

lemma lower_header_name: "map lower ''WWW-Authenticate'' = ''www-authenticate''"
  by (simp add: lower_def)

section \<open>What a match consumes\<close>

lemma rmatch_Chr_D:
  "st' \<in> set (rmatch (Chr c) st) \<Longrightarrow> remaining st = c # remaining st'"
  by (cases "remaining st") (auto simp: rmatch.simps advance_def split: if_splits)

lemma rmatch_Cls_D:
  "st' \<in> set (rmatch (Cls S) st) \<Longrightarrow> \<exists>c. c \<in> S \<and> remaining st = [c] @ remaining st'"
  by (cases "remaining st") (auto simp: rmatch.simps advance_def split: if_splits)

lemma rmatch_NCls_D:
  "st' \<in> set (rmatch (NCls S) st) \<Longrightarrow> \<exists>c. c \<notin> S \<and> remaining st = [c] @ remaining st'"
  by (cases "remaining st") (auto simp: rmatch.simps advance_def split: if_splits)

lemma rmatch_Bol_D:
  "st' \<in> set (rmatch Bol st) \<Longrightarrow> consumed st = [] \<and> st' = st"
  by (auto simp: rmatch.simps split: if_splits)

lemma rmatch_Eol_D:
  "st' \<in> set (rmatch Eol st) \<Longrightarrow> (remaining st = [] \<or> remaining st = [newline]) \<and> st' = st"
  by (auto simp: rmatch.simps split: if_splits)

lemma rmatch_Seq_D:
  "st'' \<in> set (rmatch (Seq r1 r2) st)
   \<Longrightarrow> \<exists>st'. st' \<in> set (rmatch r1 st) \<and> st'' \<in> set (rmatch r2 st')"
  by (auto simp: rmatch.simps)

lemma seqs_D:
  "b \<in> set (rmatch (seqs (r # r' # rs)) st)
   \<Longrightarrow> \<exists>st'. st' \<in> set (rmatch r st) \<and> b \<in> set (rmatch (seqs (r' # rs)) st')"
  by (auto simp: seqs.simps rmatch.simps)

lemma seqs_last_D:
  "b \<in> set (rmatch (seqs [r]) st) \<Longrightarrow> b \<in> set (rmatch r st)"
  by (simp add: seqs.simps)

lemma rmatch_Group_D:
  "st' \<in> set (rmatch (Group n r) st)
   \<Longrightarrow> \<exists>st1. st1 \<in> set (rmatch r st) \<and> remaining st' = remaining st1"
  by (auto simp: rmatch.simps capture_def)

lemma rmatch_Star_D:
  "st' \<in> set (rmatch (Star g r) st)
   \<Longrightarrow> st' = st \<or>
       (\<exists>st1. st1 \<in> set (rmatch r st) \<and> length (remaining st1) < length (remaining st) \<and>
              st' \<in> set (rmatch (Star g r) st1))"
  by (subst (asm) rmatch.simps) (auto simp: Let_def split: if_splits)

text \<open>A star consumes a sequence of pieces, each of which one iteration consumes.\<close>

lemma rmatch_Star_pieces:
  assumes step: "\<And>a b. b \<in> set (rmatch r a) \<Longrightarrow> \<exists>u. Q u \<and> remaining a = u @ remaining b"
  shows "st' \<in> set (rmatch (Star g r) st)
         \<Longrightarrow> \<exists>us. list_all Q us \<and> remaining st = concat us @ remaining st'"
proof (induction "length (remaining st)" arbitrary: st rule: less_induct)
  case less
  from rmatch_Star_D [OF less.prems] show ?case
  proof
    assume "st' = st"
    then have "list_all Q [] \<and> remaining st = concat [] @ remaining st'" by simp
    then show ?thesis by blast
  next
    assume "\<exists>st1. st1 \<in> set (rmatch r st) \<and> length (remaining st1) < length (remaining st) \<and>
              st' \<in> set (rmatch (Star g r) st1)"
    then obtain st1 where a: "st1 \<in> set (rmatch r st)"
      and b: "length (remaining st1) < length (remaining st)"
      and c: "st' \<in> set (rmatch (Star g r) st1)" by blast
    from step [OF a] obtain u where u: "Q u" "remaining st = u @ remaining st1" by blast
    from less.hyps [OF b c] obtain us where
      us: "list_all Q us" "remaining st1 = concat us @ remaining st'" by blast
    from u us have "list_all Q (u # us) \<and> remaining st = concat (u # us) @ remaining st'"
      by simp
    then show ?thesis by blast
  qed
qed

lemma concat_singletons:
  "list_all (\<lambda>u. \<exists>c. P c \<and> u = [c]) us \<Longrightarrow> list_all P (concat us)"
  by (induction us) auto

lemma rmatch_Star_Cls_D:
  assumes "st' \<in> set (rmatch (Star g (Cls S)) st)"
  shows "\<exists>w. list_all (\<lambda>c. c \<in> S) w \<and> remaining st = w @ remaining st'"
proof -
  have "\<exists>us. list_all (\<lambda>u. \<exists>c. c \<in> S \<and> u = [c]) us \<and> remaining st = concat us @ remaining st'"
    using assms by (rule rmatch_Star_pieces [rotated]) (auto dest: rmatch_Cls_D)
  then show ?thesis using concat_singletons [of "\<lambda>c. c \<in> S"] by blast
qed

lemma rmatch_Star_NCls_D:
  assumes "st' \<in> set (rmatch (Star g (NCls S)) st)"
  shows "\<exists>w. list_all (\<lambda>c. c \<notin> S) w \<and> remaining st = w @ remaining st'"
proof -
  have "\<exists>us. list_all (\<lambda>u. \<exists>c. c \<notin> S \<and> u = [c]) us \<and> remaining st = concat us @ remaining st'"
    using assms by (rule rmatch_Star_pieces [rotated]) (auto dest: rmatch_NCls_D)
  then show ?thesis using concat_singletons [of "\<lambda>c. c \<notin> S"] by blast
qed

subsection \<open>The parts of a challenge\<close>

lemma ws_star_D:
  "st' \<in> set (rmatch (Star True (Cls whitespace)) st)
   \<Longrightarrow> \<exists>w. is_ws w \<and> remaining st = w @ remaining st'"
  unfolding is_ws_def by (rule rmatch_Star_Cls_D)

lemma ws_plus_D:
  assumes "st' \<in> set (rmatch (Plus True (Cls whitespace)) st)"
  shows "\<exists>w. is_ws w \<and> remaining st = w @ remaining st'"
proof -
  from assms obtain st1 where a: "st1 \<in> set (rmatch (Cls whitespace) st)"
    and b: "st' \<in> set (rmatch (Star True (Cls whitespace)) st1)"
    unfolding Plus_def by (blast dest: rmatch_Seq_D)
  from rmatch_Cls_D [OF a] obtain c where c: "c \<in> whitespace" "remaining st = [c] @ remaining st1"
    by blast
  from ws_star_D [OF b] obtain w where w: "is_ws w" "remaining st1 = w @ remaining st'" by blast
  from c w have "is_ws (c # w) \<and> remaining st = (c # w) @ remaining st'"
    by (simp add: is_ws_def)
  then show ?thesis by blast
qed

lemma key_group_D:
  assumes "st' \<in> set (rmatch (key_group n) st)"
  shows "\<exists>k. is_key k \<and> remaining st = k @ remaining st'"
proof -
  from assms obtain st2 where r: "remaining st' = remaining st2"
    and m: "st2 \<in> set (rmatch (Plus False (NCls key_chars)) st)"
    unfolding key_group_def by (blast dest: rmatch_Group_D)
  from m obtain st1 where a: "st1 \<in> set (rmatch (NCls key_chars) st)"
    and b: "st2 \<in> set (rmatch (Star False (NCls key_chars)) st1)"
    unfolding Plus_def by (blast dest: rmatch_Seq_D)
  from rmatch_NCls_D [OF a] obtain c where
    c: "c \<notin> key_chars" "remaining st = [c] @ remaining st1" by blast
  from rmatch_Star_NCls_D [OF b] obtain w where
    w: "list_all (\<lambda>c. c \<notin> key_chars) w" "remaining st1 = w @ remaining st2" by blast
  from c w r have "is_key (c # w) \<and> remaining st = (c # w) @ remaining st'"
    by (simp add: is_key_def)
  then show ?thesis by blast
qed

lemma value_group_D:
  assumes "st' \<in> set (rmatch (value_group n) st)"
  shows "\<exists>v. is_value v \<and> remaining st = v @ remaining st'"
proof -
  from assms obtain st2 where r: "remaining st' = remaining st2"
    and m: "st2 \<in> set (rmatch (Star False (NCls {dquote})) st)"
    unfolding value_group_def by (blast dest: rmatch_Group_D)
  from rmatch_Star_NCls_D [OF m] obtain w where
    w: "list_all (\<lambda>c. c \<notin> {dquote}) w" "remaining st = w @ remaining st2" by blast
  from w r have "is_value w \<and> remaining st = w @ remaining st'"
    by (simp add: is_value_def)
  then show ?thesis by blast
qed

text \<open>A pair \<open>key="value"\<close>, followed in the pattern by whatever comes next.\<close>

lemma pair_D:
  assumes "st' \<in> set (rmatch (seqs (key_group n # Chr CHR ''='' # Chr dquote # value_group m #
             Chr dquote # K # Ks)) st)"
  shows "\<exists>k v st1. is_key k \<and> is_value v \<and> remaining st = pair_text k v @ remaining st1 \<and>
           st' \<in> set (rmatch (seqs (K # Ks)) st1)"
proof -
  from seqs_D [OF assms] obtain s1 where
    1: "s1 \<in> set (rmatch (key_group n) st)" and
    r1: "st' \<in> set (rmatch (seqs (Chr CHR ''='' # Chr dquote # value_group m #
             Chr dquote # K # Ks)) s1)" by blast
  from seqs_D [OF r1] obtain s2 where
    2: "s2 \<in> set (rmatch (Chr CHR ''='') s1)" and
    r2: "st' \<in> set (rmatch (seqs (Chr dquote # value_group m # Chr dquote # K # Ks)) s2)"
    by blast
  from seqs_D [OF r2] obtain s3 where
    3: "s3 \<in> set (rmatch (Chr dquote) s2)" and
    r3: "st' \<in> set (rmatch (seqs (value_group m # Chr dquote # K # Ks)) s3)" by blast
  from seqs_D [OF r3] obtain s4 where
    4: "s4 \<in> set (rmatch (value_group m) s3)" and
    r4: "st' \<in> set (rmatch (seqs (Chr dquote # K # Ks)) s4)" by blast
  from seqs_D [OF r4] obtain s5 where
    5: "s5 \<in> set (rmatch (Chr dquote) s4)" and
    6: "st' \<in> set (rmatch (seqs (K # Ks)) s5)" by blast
  from key_group_D [OF 1] obtain k where k: "is_key k" "remaining st = k @ remaining s1" by blast
  from value_group_D [OF 4] obtain v where v: "is_value v" "remaining s3 = v @ remaining s4"
    by blast
  from k v rmatch_Chr_D [OF 2] rmatch_Chr_D [OF 3] rmatch_Chr_D [OF 5]
  have "remaining st = pair_text k v @ remaining s5" by (simp add: pair_text_def)
  with k v 6 show ?thesis by blast
qed

subsection \<open>The pairs after the first\<close>

lemma is_ws_append: "is_ws (a @ b) = (is_ws a \<and> is_ws b)"
  by (simp add: is_ws_def)

lemma more_pairs_pieces:
  "list_all (\<lambda>u. \<exists>w2 k v w3. is_ws w2 \<and> is_key k \<and> is_value v \<and> is_ws w3 \<and>
                     u = [CHR '',''] @ w2 @ pair_text k v @ w3) us
   \<Longrightarrow> is_ws w \<Longrightarrow> is_ws e \<Longrightarrow> more_pairs (w @ concat us @ e)"
proof (induction us arbitrary: w)
  case Nil
  then show ?case by (simp add: no_more is_ws_append)
next
  case (Cons u us)
  from Cons.prems(1) obtain w2 k v w3 where
    u: "is_ws w2" "is_key k" "is_value v" "is_ws w3" "u = [CHR '',''] @ w2 @ pair_text k v @ w3"
    by auto
  from Cons.prems(1) have rest: "list_all (\<lambda>u. \<exists>w2 k v w3. is_ws w2 \<and> is_key k \<and> is_value v \<and>
      is_ws w3 \<and> u = [CHR '',''] @ w2 @ pair_text k v @ w3) us" by simp
  have "more_pairs (w3 @ concat us @ e)"
    by (rule Cons.IH [OF rest u(4) Cons.prems(3)])
  then have "more_pairs (w @ [CHR '',''] @ w2 @ pair_text k v @ (w3 @ concat us @ e))"
    by (rule one_more [OF Cons.prems(2) u(1) u(2) u(3)])
  then show ?case using u(5) by simp
qed

text \<open>One iteration of the starred group \<open>(,\s*key="value"\s*)\<close>.\<close>

lemma other_pair_D:
  assumes "b \<in> set (rmatch (Group g (seqs [Chr CHR '','', Star True (Cls whitespace),
             key_group n, Chr CHR ''='', Chr dquote, value_group m, Chr dquote,
             Star True (Cls whitespace)])) a)"
  shows "\<exists>u. (\<exists>w2 k v w3. is_ws w2 \<and> is_key k \<and> is_value v \<and> is_ws w3 \<and>
                u = [CHR '',''] @ w2 @ pair_text k v @ w3) \<and> remaining a = u @ remaining b"
proof -
  from rmatch_Group_D [OF assms] obtain b' where r: "remaining b = remaining b'"
    and m: "b' \<in> set (rmatch (seqs [Chr CHR '','', Star True (Cls whitespace),
             key_group n, Chr CHR ''='', Chr dquote, value_group m, Chr dquote,
             Star True (Cls whitespace)]) a)"
    by blast
  from seqs_D [OF m] obtain s1 where
    1: "s1 \<in> set (rmatch (Chr CHR '','') a)" and
    r1: "b' \<in> set (rmatch (seqs [Star True (Cls whitespace),
             key_group n, Chr CHR ''='', Chr dquote, value_group m, Chr dquote,
             Star True (Cls whitespace)]) s1)" by blast
  from seqs_D [OF r1] obtain s2 where
    2: "s2 \<in> set (rmatch (Star True (Cls whitespace)) s1)" and
    3: "b' \<in> set (rmatch (seqs [key_group n, Chr CHR ''='', Chr dquote, value_group m,
             Chr dquote, Star True (Cls whitespace)]) s2)" by blast
  from ws_star_D [OF 2] obtain w2 where w2: "is_ws w2" "remaining s1 = w2 @ remaining s2" by blast
  from pair_D [OF 3] obtain k v s3 where
    p: "is_key k" "is_value v" "remaining s2 = pair_text k v @ remaining s3"
    and 4: "b' \<in> set (rmatch (seqs [Star True (Cls whitespace)]) s3)" by blast
  from ws_star_D [OF seqs_last_D [OF 4]] obtain w3 where
    w3: "is_ws w3" "remaining s3 = w3 @ remaining b'" by blast
  from rmatch_Chr_D [OF 1] w2 p w3 r
  have "remaining a = ([CHR '',''] @ w2 @ pair_text k v @ w3) @ remaining b" by simp
  with w2 p w3 show ?thesis by blast
qed

subsection \<open>\<open>search\<close>\<close>

lemma search_from_D:
  "search_from r pre s = Some (a, b)
   \<Longrightarrow> \<exists>p q. pre @ s = p @ q \<and> a = \<lparr>consumed = p, remaining = q, groups = []\<rparr> \<and>
             b \<in> set (rmatch r a)"
proof (induction s arbitrary: pre)
  case Nil
  then show ?case by (auto split: list.splits)
next
  case (Cons c cs)
  show ?case
  proof (cases "rmatch r \<lparr>consumed = pre, remaining = c # cs, groups = []\<rparr>")
    case Nil
    with Cons.prems have "search_from r (pre @ [c]) cs = Some (a, b)" by simp
    from Cons.IH [OF this] show ?thesis by simp
  next
    case (Cons x xs)
    with Cons.prems show ?thesis by auto
  qed
qed

lemma search_anchored_D:
  assumes "search (seqs (Bol # r # rs)) s \<noteq> None"
  shows "\<exists>b. b \<in> set (rmatch (seqs (r # rs)) \<lparr>consumed = [], remaining = s, groups = []\<rparr>)"
proof -
  from assms obtain a b where "search_from (seqs (Bol # r # rs)) [] s = Some (a, b)"
    by (auto simp: search_def)
  from search_from_D [OF this] obtain p q where
    pq: "s = p @ q" "a = \<lparr>consumed = p, remaining = q, groups = []\<rparr>"
    and m: "b \<in> set (rmatch (seqs (Bol # r # rs)) a)" by auto
  from seqs_D [OF m] obtain a' where
    "a' \<in> set (rmatch Bol a)" "b \<in> set (rmatch (seqs (r # rs)) a')" by blast
  with rmatch_Bol_D [of a' a] have "consumed a = []" "b \<in> set (rmatch (seqs (r # rs)) a)"
    by auto
  with pq show ?thesis by auto
qed

subsection \<open>What the validating pattern accepts\<close>

lemma validation_shape:
  "bearer_challenge_structure_validation =
     seqs [Bol, Star True (Cls whitespace),
           Chr CHR ''B'', Chr CHR ''e'', Chr CHR ''a'', Chr CHR ''r'', Chr CHR ''e'', Chr CHR ''r'',
           Plus True (Cls whitespace), key_group 1, Chr CHR ''='', Chr dquote,
           value_group 2, Chr dquote, Star True (Cls whitespace),
           Star True (Group 3 (seqs [Chr CHR '','', Star True (Cls whitespace),
                                     key_group 4, Chr CHR ''='', Chr dquote,
                                     value_group 5, Chr dquote,
                                     Star True (Cls whitespace)])),
           Eol]"
  by (simp add: bearer_challenge_structure_validation_def)

lemma validation_sound:
  assumes "search bearer_challenge_structure_validation s \<noteq> None"
  shows "challenge_grammar s"
proof -
  let ?st0 = "\<lparr>consumed = [], remaining = s, groups = []\<rparr>"
  let ?other = "Star True (Group 3 (seqs [Chr CHR '','', Star True (Cls whitespace),
                                     key_group 4, Chr CHR ''='', Chr dquote,
                                     value_group 5, Chr dquote,
                                     Star True (Cls whitespace)]))"
  let ?pair = "[key_group 1, Chr CHR ''='', Chr dquote,
           value_group 2, Chr dquote, Star True (Cls whitespace), ?other, Eol]"
  from search_anchored_D [OF assms [unfolded validation_shape]] obtain b where
    0: "b \<in> set (rmatch (seqs (Star True (Cls whitespace) #
           Chr CHR ''B'' # Chr CHR ''e'' # Chr CHR ''a'' # Chr CHR ''r'' # Chr CHR ''e'' #
           Chr CHR ''r'' # Plus True (Cls whitespace) # ?pair)) ?st0)"
    by blast
  from seqs_D [OF 0] obtain s1 where
    1: "s1 \<in> set (rmatch (Star True (Cls whitespace)) ?st0)" and
    r1: "b \<in> set (rmatch (seqs (Chr CHR ''B'' # Chr CHR ''e'' # Chr CHR ''a'' # Chr CHR ''r'' #
           Chr CHR ''e'' # Chr CHR ''r'' # Plus True (Cls whitespace) # ?pair)) s1)" by blast
  from seqs_D [OF r1] obtain s2 where
    2: "s2 \<in> set (rmatch (Chr CHR ''B'') s1)" and
    r2: "b \<in> set (rmatch (seqs (Chr CHR ''e'' # Chr CHR ''a'' # Chr CHR ''r'' #
           Chr CHR ''e'' # Chr CHR ''r'' # Plus True (Cls whitespace) # ?pair)) s2)" by blast
  from seqs_D [OF r2] obtain s3 where
    3: "s3 \<in> set (rmatch (Chr CHR ''e'') s2)" and
    r3: "b \<in> set (rmatch (seqs (Chr CHR ''a'' # Chr CHR ''r'' #
           Chr CHR ''e'' # Chr CHR ''r'' # Plus True (Cls whitespace) # ?pair)) s3)" by blast
  from seqs_D [OF r3] obtain s4 where
    4: "s4 \<in> set (rmatch (Chr CHR ''a'') s3)" and
    r4: "b \<in> set (rmatch (seqs (Chr CHR ''r'' #
           Chr CHR ''e'' # Chr CHR ''r'' # Plus True (Cls whitespace) # ?pair)) s4)" by blast
  from seqs_D [OF r4] obtain s5 where
    5: "s5 \<in> set (rmatch (Chr CHR ''r'') s4)" and
    r5: "b \<in> set (rmatch (seqs (Chr CHR ''e'' # Chr CHR ''r'' #
           Plus True (Cls whitespace) # ?pair)) s5)" by blast
  from seqs_D [OF r5] obtain s6 where
    6: "s6 \<in> set (rmatch (Chr CHR ''e'') s5)" and
    r6: "b \<in> set (rmatch (seqs (Chr CHR ''r'' # Plus True (Cls whitespace) # ?pair)) s6)"
    by blast
  from seqs_D [OF r6] obtain s7 where
    7: "s7 \<in> set (rmatch (Chr CHR ''r'') s6)" and
    r7: "b \<in> set (rmatch (seqs (Plus True (Cls whitespace) # ?pair)) s7)" by blast
  from seqs_D [OF r7] obtain s8 where
    8: "s8 \<in> set (rmatch (Plus True (Cls whitespace)) s7)" and
    9: "b \<in> set (rmatch (seqs ?pair) s8)" by blast
  from ws_star_D [OF 1] obtain w0 where w0: "is_ws w0" "s = w0 @ remaining s1" by auto
  from ws_plus_D [OF 8] obtain w1 where w1: "is_ws w1" "remaining s7 = w1 @ remaining s8" by blast
  from pair_D [OF 9] obtain k v s9 where
    p: "is_key k" "is_value v" "remaining s8 = pair_text k v @ remaining s9" and
    10: "b \<in> set (rmatch (seqs [Star True (Cls whitespace), ?other, Eol]) s9)" by blast
  from seqs_D [OF 10] obtain s10 where
    11: "s10 \<in> set (rmatch (Star True (Cls whitespace)) s9)" and
    r11: "b \<in> set (rmatch (seqs [?other, Eol]) s10)" by blast
  from seqs_D [OF r11] obtain s11 where
    12: "s11 \<in> set (rmatch ?other s10)" and
    r12: "b \<in> set (rmatch (seqs [Eol]) s11)" by blast
  have 13: "b \<in> set (rmatch Eol s11)" by (rule seqs_last_D [OF r12])
  from ws_star_D [OF 11] obtain w where w: "is_ws w" "remaining s9 = w @ remaining s10" by blast
  let ?Q = "\<lambda>u. \<exists>w2 k v w3. is_ws w2 \<and> is_key k \<and> is_value v \<and> is_ws w3 \<and>
                     u = [CHR '',''] @ w2 @ pair_text k v @ w3"
  have step: "\<And>a b. b \<in> set (rmatch (Group 3 (seqs [Chr CHR '','', Star True (Cls whitespace),
                                     key_group 4, Chr CHR ''='', Chr dquote,
                                     value_group 5, Chr dquote,
                                     Star True (Cls whitespace)])) a)
              \<Longrightarrow> \<exists>u. ?Q u \<and> remaining a = u @ remaining b"
    by (rule other_pair_D)
  from rmatch_Star_pieces [where Q = ?Q, OF step 12] obtain us where
    us: "list_all ?Q us" "remaining s10 = concat us @ remaining s11"
    by blast
  from rmatch_Eol_D [OF 13] have e: "is_ws (remaining s11)"
    by (auto simp: is_ws_def whitespace_def newline_def)
  have t: "more_pairs (w @ concat us @ remaining s11)"
    by (rule more_pairs_pieces [OF us(1) w(1) e])
  from w0 w1 p w us rmatch_Chr_D [OF 2] rmatch_Chr_D [OF 3] rmatch_Chr_D [OF 4]
    rmatch_Chr_D [OF 5] rmatch_Chr_D [OF 6] rmatch_Chr_D [OF 7]
  have "s = w0 @ ''Bearer'' @ w1 @ pair_text k v @ (w @ concat us @ remaining s11)" by simp
  with w0(1) w1(1) p(1) p(2) t show ?thesis unfolding challenge_grammar_def by blast
qed

subsection \<open>Strings outside the grammar\<close>

lemma challenge_grammar_has_equals:
  "challenge_grammar s \<Longrightarrow> CHR ''='' \<in> set s"
  by (auto simp: challenge_grammar_def pair_text_def)

lemma not_a_challenge_outside_grammar: "\<not> challenge_grammar ''not a challenge''"
  using challenge_grammar_has_equals [of "''not a challenge''"] by auto

lemma challenge_grammar_example:
  \<open>challenge_grammar ''Bearer a=",b=", c="d"''\<close>
proof -
  have t: \<open>more_pairs ([] @ [CHR '',''] @ '' '' @ pair_text ''c'' ''d'' @ [])\<close>
    by (rule one_more) (simp_all add: no_more is_ws_def is_key_def is_value_def key_chars_def
        whitespace_def dquote_def)
  have \<open>''Bearer a=",b=", c="d"'' =
          [] @ ''Bearer'' @ '' '' @ pair_text ''a'' '',b='' @
          ([] @ [CHR '',''] @ '' '' @ pair_text ''c'' ''d'' @ [])\<close>
    by (simp add: pair_text_def dquote_def)
  moreover have "is_ws []" "is_ws '' ''" "is_key ''a''" "is_value '',b=''"
    by (simp_all add: is_ws_def is_key_def is_value_def key_chars_def whitespace_def dquote_def)
  ultimately show ?thesis unfolding challenge_grammar_def using t by blast
qed

lemma challenge_grammar_one_pair:
  \<open>challenge_grammar ''Bearer a="b"''\<close>
proof -
  have \<open>''Bearer a="b"'' = [] @ ''Bearer'' @ '' '' @ pair_text ''a'' ''b'' @ []\<close>
    by (simp add: pair_text_def dquote_def)
  moreover have "is_ws []" "is_ws '' ''" "is_key ''a''" "is_value ''b''" "more_pairs []"
    by (simp_all add: no_more is_ws_def is_key_def is_value_def key_chars_def whitespace_def
        dquote_def)
  ultimately show ?thesis unfolding challenge_grammar_def by blast
qed

section \<open>The parsed parameters (C1)\<close>

text \<open>
  C1. The claim: for every well-formed challenge \<open>Bearer k1="v1", k2="v2", ...\<close> the result
  of \<open>parse_challenge\<close> has exactly the entries \<open>ki: vi\<close>, the last occurrence of a key
  winning. The code: the pattern of the later pairs is searched for from the start of the
  string, quoted values included. The challenge \<open>Bearer a=",b=", c="d"\<close> is in the grammar
  (lemma \<open>challenge_grammar_example\<close>) with the pairs \<open>a: ,b=\<close> and \<open>c: d\<close>; the code
  returns \<open>a: ,b=\<close> and \<open>b: , c=\<close>, an entry for a key that the challenge does not have, and
  none for \<open>c\<close>.
\<close>

theorem parse_challenge_scans_inside_values:
  \<open>parse_challenge ''Bearer a=",b=", c="d"'' = Inr [''a'' \<mapsto> '',b='', ''b'' \<mapsto> '', c='']\<close>
  by (simp add: parse_challenge_def pattern_defs matcher_defs)

section \<open>The thumbprint check (C2)\<close>

text \<open>
  C2. The claim: a thumbprint is accepted if and only if, once the separators are removed
  and the letters lowered, it has 32 or 40 characters and all of them are hexadecimal
  digits. The code: \<open>$\<close> also matches in front of a final newline, so 31 hexadecimal
  digits and a newline, which have length 32, are accepted and returned.
\<close>

theorem reduce_thumbprint_accepts_final_newline:
  "reduce_thumbprint (''0123456789abcdef0123456789abcde'' @ [newline]) =
     Inr (''0123456789abcdef0123456789abcde'' @ [newline])"
  by (simp add: reduce_thumbprint_def lower_def remove_char_def raise_on_invalid_thumbprint_def
      NumCharIn128BitHexString_def numCharIn160BitHexString_def create_error_def
      pattern_defs matcher_defs)

section \<open>The \<open>x5t\<close> value (C3)\<close>

text \<open>
  C3. The claim: the \<open>x5t\<close> value is the URL-safe base64 encoding, without padding, of the
  bytes that the thumbprint writes in hexadecimal. The code: it encodes the characters of
  the hexadecimal text itself. For the thumbprint of 32 zeros the code gives the 43
  characters \<open>MDAw...MDA\<close>, which decode to the 32 characters \<open>0\<close>; the encoding of the 16
  zero bytes is the 22 characters \<open>AAAA...AA\<close>.
\<close>

lemma b64encode_000:
  "b64encode (CHR ''0'' # CHR ''0'' # CHR ''0'' # rest) = ''MDAw'' @ b64encode rest"
  by (simp add: b64_char_def b64_alphabet_def)

lemma b64encode_00: "b64encode ''00'' = ''MDA=''"
  by (simp add: b64_char_def b64_alphabet_def)

lemma hex_decode_00:
  "hex_decode (CHR ''0'' # CHR ''0'' # rest) = char_of (0::nat) # hex_decode rest"
  by (simp add: hex_value_def upt_conv_Cons)

lemma hex_decode_Nil: "hex_decode [] = []"
  by simp

lemma b64encode_zero3:
  "b64encode (char_of (0::nat) # char_of (0::nat) # char_of (0::nat) # rest) =
     ''AAAA'' @ b64encode rest"
  by (simp add: b64_char_def b64_alphabet_def)

lemma b64encode_zero1: "b64encode [char_of (0::nat)] = ''AA==''"
  by (simp add: b64_char_def b64_alphabet_def)

lemma b64encode_hex_text:
  "b64encode ''00000000000000000000000000000000'' =
     ''MDAwMDAwMDAwMDAwMDAwMDAwMDAwMDAwMDAwMDAwMDA=''"
  by (simp only: b64encode_000 b64encode_00 append.simps)

lemma hex_decode_zeros:
  "hex_decode ''00000000000000000000000000000000'' =
     [char_of (0::nat), char_of (0::nat), char_of (0::nat), char_of (0::nat),
      char_of (0::nat), char_of (0::nat), char_of (0::nat), char_of (0::nat),
      char_of (0::nat), char_of (0::nat), char_of (0::nat), char_of (0::nat),
      char_of (0::nat), char_of (0::nat), char_of (0::nat), char_of (0::nat)]"
  by (simp only: hex_decode_00 hex_decode_Nil)

lemma b64encode_zero_bytes:
  "b64encode
     [char_of (0::nat), char_of (0::nat), char_of (0::nat), char_of (0::nat),
      char_of (0::nat), char_of (0::nat), char_of (0::nat), char_of (0::nat),
      char_of (0::nat), char_of (0::nat), char_of (0::nat), char_of (0::nat),
      char_of (0::nat), char_of (0::nat), char_of (0::nat), char_of (0::nat)] =
     ''AAAAAAAAAAAAAAAAAAAAAA==''"
  by (simp only: b64encode_zero3 b64encode_zero1 append.simps)

text \<open>
  C3, at the thumbprint of 32 zeros: what \<open>_create_x5t_value\<close> returns, and the encoding of
  the bytes that the claim describes.
\<close>

theorem create_x5t_value_encodes_hex_text:
  "create_x5t_value ''00000000000000000000000000000000'' =
     ''MDAwMDAwMDAwMDAwMDAwMDAwMDAwMDAwMDAwMDAwMDA'' \<and>
   spec_x5t_value ''00000000000000000000000000000000'' = ''AAAAAAAAAAAAAAAAAAAAAA''"
  by (simp add: create_x5t_value_def spec_x5t_value_def remove_char_def
      convert_regular_to_urlsafe_b64encoded_string_def b64encode_hex_text hex_decode_zeros
      b64encode_zero_bytes del: b64encode.simps hex_decode.simps)

section \<open>The times of the payload (C4)\<close>

text \<open>
  Where the local clock keeps one offset from UTC, the payload is as the claim says: the
  clock is read once, one identifier is drawn, and \<open>exp\<close> is \<open>nbf\<close> and the lifetime.
\<close>

lemma create_payload_constant_offset:
  assumes "\<And>s. mktime host s = s + offset" and "log_debug host = (\<lambda>expires now. None)"
  shows "\<exists>p st'. create_payload host self st = Inr (p, st') \<and>
           EXPIRES_ON p - NOT_BEFORE p = 60 * SELF_SIGNED_JWT_LIFETIME host \<and>
           NOT_BEFORE p = timetuple (get_date_now host (readings st)) + offset \<and>
           JWT_ID p = get_new_jwt_id host (draws st) \<and>
           readings st' = readings st + 1 \<and> draws st' = draws st + 1"
proof -
  have "(t + l * 60 * 1000000) div 1000000 = t div 1000000 + 60 * l" for t l :: int
    by simp
  then show ?thesis
    by (simp add: create_payload_def timetuple_def assms Let_def)
qed

text \<open>
  C4. The claim: \<open>exp - nbf\<close> is the configured lifetime in seconds. The code: \<open>now\<close> and
  \<open>expires\<close> are naive local times, ten minutes apart on the calendar, and each is taken to
  the seconds since the epoch by \<open>time.mktime\<close> on its own. On the host whose clock shows
  01:55:00 on the night the clocks go back at 02:00, \<open>nbf\<close> is 1414907700 and \<open>exp\<close> is
  1414911900: 4200 seconds later, where the lifetime of ten minutes is 600 seconds.
\<close>

theorem create_payload_across_clock_change:
  "create_payload clock_change_host
     \<lparr>token_endpoint = ''https://login.windows.net/t/oauth2/token'', client_id = ''client''\<rparr>
     \<lparr>readings = 0, draws = 0\<rparr> =
   Inr (\<lparr>AUDIENCE = ''https://login.windows.net/t/oauth2/token'',
         ISSUER = ''client'', SUBJECT = ''client'',
         NOT_BEFORE = 1414907700, EXPIRES_ON = 1414911900, JWT_ID = 0\<rparr>,
        \<lparr>readings = 1, draws = 1\<rparr>)"
  by (simp add: create_payload_def clock_change_host_def timetuple_def)

section \<open>Strings outside the grammar (C5)\<close>

text \<open>
  C5, as the claim states it, fails: a string outside the grammar is refused with a
  ValueError, the class that the code also raises for a missing \<open>authorization_uri\<close>, and
  not with a ParseError.
\<close>

theorem parse_challenge_raises_ValueError:
  "parse_challenge ''not a challenge'' =
     Inl (ValueError ''The challenge is not parseable as an RFC6750 OAuth2 challenge'') \<and>
   \<not> raises_ParseError (parse_challenge ''not a challenge'')"
  by (simp add: parse_challenge_no_challenge raises_ParseError_def)

text \<open>
  C5, amended. A string that is not in the grammar of the spec is refused by
  \<open>parse_challenge\<close> with the ValueError of an unparseable challenge, and whenever
  \<open>parse_challenge\<close> returns a mapping the string is in the grammar: the check of the whole
  string comes first, and no mapping is made from a string that fails it.
\<close>

theorem parse_challenge_refuses_outside_grammar:
  "(\<not> challenge_grammar s \<longrightarrow>
      parse_challenge s =
        Inl (ValueError ''The challenge is not parseable as an RFC6750 OAuth2 challenge'')) \<and>
   (parse_challenge s = Inr m \<longrightarrow> challenge_grammar s)"
proof (cases "search bearer_challenge_structure_validation s = None")
  case True
  then show ?thesis by (simp add: parse_challenge_def)
next
  case False
  then have "challenge_grammar s" by (rule validation_sound)
  then show ?thesis by simp
qed

theorem parse_challenge_refuses_outside_grammar_witness:
  \<open>\<not> challenge_grammar ''not a challenge'' \<and>
    parse_challenge ''not a challenge'' =
      Inl (ValueError ''The challenge is not parseable as an RFC6750 OAuth2 challenge'') \<and>
    parse_challenge ''Bearer a="b"'' = Inr [''a'' \<mapsto> ''b''] \<and>
    challenge_grammar ''Bearer a="b"''\<close>
  using
    parse_challenge_refuses_outside_grammar [of "''not a challenge''" Map.empty]
    parse_challenge_refuses_outside_grammar
      [of \<open>''Bearer a="b"''\<close> "[''a'' \<mapsto> ''b'']"]
    not_a_challenge_outside_grammar parse_challenge_one_pair
  by simp

section \<open>The authorization URI (C6)\<close>

text \<open>
  C6. Every value that \<open>create_authentication_parameters_from_header\<close> returns has a
  non-empty \<open>authorization_uri\<close>; when the parsed mapping has no \<open>authorization_uri\<close>, or an
  empty one, the operation fails with ValueError and returns no value; and with a non-empty
  one it succeeds whether or not \<open>resource\<close> is there, the resource of the result being the
  one of the mapping, or absent.
\<close>

theorem from_header_authorization_uri:
  "(create_authentication_parameters_from_header c = Inr p \<longrightarrow> authorization_uri p \<noteq> []) \<and>
   (parse_challenge c = Inr m \<longrightarrow>
      (m AUTHORIZATION_URI = None \<or> m AUTHORIZATION_URI = Some []) \<longrightarrow>
      create_authentication_parameters_from_header c =
        Inl (ValueError no_authorization_uri_message)) \<and>
   (parse_challenge c = Inr m \<longrightarrow> m AUTHORIZATION_URI = Some u \<longrightarrow> u \<noteq> [] \<longrightarrow>
      create_authentication_parameters_from_header c =
        Inr \<lparr>authorization_uri = u, resource = m RESOURCE\<rparr>)"
proof (cases "c = []")
  case True
  then show ?thesis
    by (simp add: create_authentication_parameters_from_header_def validate_string_param_def
        parse_challenge_empty)
next
  case False
  then show ?thesis
    by (auto simp: create_authentication_parameters_from_header_def validate_string_param_def
        split: sum.splits option.splits if_splits)
qed

theorem from_header_authorization_uri_witness:
  \<open>create_authentication_parameters_from_header
      ''Bearer authorization_uri="https://login.windows.net/t"'' =
      Inr \<lparr>authorization_uri = ''https://login.windows.net/t'', resource = None\<rparr> \<and>
    authorization_uri \<lparr>authorization_uri = ''https://login.windows.net/t'', resource = None\<rparr>
      \<noteq> [] \<and>
    create_authentication_parameters_from_header ''Bearer resource="x"'' =
      Inl (ValueError no_authorization_uri_message)\<close>
  using
    from_header_authorization_uri
      [where c = \<open>''Bearer authorization_uri="https://login.windows.net/t"''\<close>
         and m = "[''authorization_uri'' \<mapsto> ''https://login.windows.net/t'']"
         and u = "''https://login.windows.net/t''"
         and p = "\<lparr>authorization_uri = ''https://login.windows.net/t'', resource = None\<rparr>"]
    from_header_authorization_uri
      [where c = \<open>''Bearer resource="x"''\<close> and m = "[''resource'' \<mapsto> ''x'']"]
    parse_challenge_uri_only parse_challenge_resource_only
  by (simp add: AUTHORIZATION_URI_def RESOURCE_def)

section \<open>The signature check (C7)\<close>

text \<open>
  C7. The claim: when the signing primitive's result has fewer than three segments or an
  empty third one the builder fails with AssertionError, and otherwise \<open>_sign_jwt\<close> returns
  the token unchanged. The code: whatever token the signing primitive returns,
  \<open>_sign_jwt\<close> fails with NameError, because the check names a variable that does not
  exist. So a well-formed token is not returned, and a malformed one is not refused with
  the AssertionError.
\<close>

theorem sign_jwt_always_NameError:
  "sign_jwt (\<lambda>header payload certificate. Inr jwt) h p c =
     Inl (NameError ''global name 'seqments' is not defined'')"
  by (simp add: sign_jwt_def raise_on_invalid_jwt_signature_def)

section \<open>The checks on a response (C8)\<close>

lemma mapping_get_items: "mapping_get hs key = Some v \<Longrightarrow> items hs \<noteq> []"
  by (cases hs) auto

text \<open>
  C8, as the claim states it, fails: a response without a status code is refused with an
  AttributeError, not an ArgumentError; a response with status 401 and an empty header
  mapping is refused with the error of a malformed response, not with the ValueError of a
  missing challenge; and a response with status 0 is refused with the error of a malformed
  response, not with a ValueError that cites the status.
\<close>

theorem from_response_counterexample:
  "create_authentication_parameters_from_response
     \<lparr>truth = True, status_code = None, headers = Some (Dict [(''content-type'', ''text/html'')])\<rparr> =
     Inl (AttributeError
            ''The response parameter does not have the expected HTTP status_code field'') \<and>
   create_authentication_parameters_from_response
     \<lparr>truth = True, status_code = Some 401, headers = Some (Dict [])\<rparr> =
     Inl (AttributeError ''There were no headers found in the response.'') \<and>
   create_authentication_parameters_from_response
     \<lparr>truth = True, status_code = Some 0,
      headers = Some (Dict [(''content-type'', ''text/html'')])\<rparr> =
     Inl (AttributeError
            ''The response parameter does not have the expected HTTP status_code field'')"
  by (simp add: create_authentication_parameters_from_response_def)

text \<open>
  C8, amended. For a response that is truthy: the operation fails with AttributeError when
  the status code is missing, \<open>None\<close> or 0, and when the header mapping is missing, \<open>None\<close>
  or empty. Otherwise it fails with a ValueError that cites the status for every status
  other than 401; otherwise with the ValueError of a missing challenge when the \<open>get\<close> of
  the mapping finds no non-empty value for \<open>www-authenticate\<close>; otherwise the value found
  is handed to \<open>create_authentication_parameters_from_header\<close>. And every value that the
  operation returns comes from there, for a response with status 401.
\<close>

theorem from_response_cases:
  "(truth r \<and> (status_code r = None \<or> status_code r = Some 0 \<or> headers r = None \<or>
               (headers r = Some hs \<and> items hs = []))
      \<longrightarrow> (\<exists>msg. create_authentication_parameters_from_response r = Inl (AttributeError msg))) \<and>
   (truth r \<and> status_code r = Some code \<and> code \<noteq> 0 \<and> code \<noteq> 401 \<and>
      headers r = Some hs \<and> items hs \<noteq> []
      \<longrightarrow> create_authentication_parameters_from_response r =
            Inl (ValueError (status_message code))) \<and>
   (truth r \<and> status_code r = Some 401 \<and> headers r = Some hs \<and> items hs \<noteq> [] \<and>
      (mapping_get hs WWW_AUTHENTICATE_HEADER = None \<or>
       mapping_get hs WWW_AUTHENTICATE_HEADER = Some [])
      \<longrightarrow> create_authentication_parameters_from_response r =
            Inl (ValueError no_challenge_message)) \<and>
   (truth r \<and> status_code r = Some 401 \<and> headers r = Some hs \<and>
      mapping_get hs WWW_AUTHENTICATE_HEADER = Some challenge \<and> challenge \<noteq> []
      \<longrightarrow> create_authentication_parameters_from_response r =
            create_authentication_parameters_from_header challenge) \<and>
   (create_authentication_parameters_from_response r = Inr p
      \<longrightarrow> status_code r = Some 401 \<and>
          (\<exists>hs challenge. headers r = Some hs \<and>
             mapping_get hs WWW_AUTHENTICATE_HEADER = Some challenge \<and>
             challenge \<noteq> [] \<and> create_authentication_parameters_from_header challenge = Inr p))"
  by (auto simp: create_authentication_parameters_from_response_def UNAUTHORIZED_def
      dest: mapping_get_items split: option.splits if_splits)

theorem from_response_cases_witness:
  \<open>(\<exists>msg. create_authentication_parameters_from_response
             \<lparr>truth = True, status_code = None, headers = None\<rparr> = Inl (AttributeError msg)) \<and>
    create_authentication_parameters_from_response
      \<lparr>truth = True, status_code = Some 200,
       headers = Some (Dict [(''content-type'', ''text/html'')])\<rparr> =
      Inl (ValueError
             (''The response status code does not correspond to an OAuth challenge.  '' @
              ''The statusCode is expected to be 401 but is: 200'')) \<and>
    create_authentication_parameters_from_response
      \<lparr>truth = True, status_code = Some 401,
       headers = Some (Dict [(''content-type'', ''text/html'')])\<rparr> =
      Inl (ValueError no_challenge_message) \<and>
    create_authentication_parameters_from_response challenge_response =
      create_authentication_parameters_from_header
        ''Bearer authorization_uri="https://login.windows.net/t"'' \<and>
    create_authentication_parameters_from_response challenge_response =
      Inr \<lparr>authorization_uri = ''https://login.windows.net/t'', resource = None\<rparr> \<and>
    status_code challenge_response = Some 401\<close>
  using
    from_response_cases
      [where r = "\<lparr>truth = True, status_code = None, headers = None\<rparr>"]
    from_response_cases
      [where r = "\<lparr>truth = True, status_code = Some 200,
                    headers = Some (Dict [(''content-type'', ''text/html'')])\<rparr>"
         and code = 200 and hs = "Dict [(''content-type'', ''text/html'')]"]
    from_response_cases
      [where r = "\<lparr>truth = True, status_code = Some 401,
                    headers = Some (Dict [(''content-type'', ''text/html'')])\<rparr>"
         and hs = "Dict [(''content-type'', ''text/html'')]"]
    from_response_cases
      [where r = challenge_response
         and hs = \<open>Dict [(''www-authenticate'',
                          ''Bearer authorization_uri="https://login.windows.net/t"'')]\<close>
         and challenge = \<open>''Bearer authorization_uri="https://login.windows.net/t"''\<close>
         and p = "\<lparr>authorization_uri = ''https://login.windows.net/t'', resource = None\<rparr>"]
    challenge_response_parameters
  by (simp add: challenge_response_def WWW_AUTHENTICATE_HEADER_def status_message_def
      str_int_200)

section \<open>The callback (C9)\<close>

text \<open>
  C9. The claim: the callback is called exactly once, with an error or with a result. The
  code: the calls of the callback are inside the \<open>try\<close> whose handler calls the callback,
  so a callback that raises when it is given the parameters is called a second time, with
  its own exception. Here the GET is answered with a challenge, the callback raises at its
  first call and returns at its second: it is called twice, first with the parameters and
  then with the exception, and nothing reaches the caller.
\<close>

theorem from_url_callback_called_twice:
  "create_authentication_parameters_from_url quiet_collaborators (UrlStr ''https://resource/'')
     (Callable (\<lambda>n err res. if n = 0 then Some (OtherException ''callback failed'') else None))
     ''correlation-id'' =
   ([(None, Some \<lparr>authorization_uri = ''https://login.windows.net/t'', resource = None\<rparr>),
     (Some (OtherException ''callback failed''), None)], None)"
  by (simp add: create_authentication_parameters_from_url_def try_body_def challenge_url_of_def
      quiet_collaborators_def invoke_def challenge_response_parameters)

text \<open>
  What holds of the callback. With a callback that raises nothing, the callback is called
  exactly once, either with an error and no result or with a result and no error, and
  nothing is raised to the caller. With any callback, an exception that the operation
  raises to the caller is one that the callback raised: none comes from the URL, the
  request options, the GET, the logger or the parsing of the response.
\<close>

theorem from_url_callback_once:
  "((\<forall>n err res. cb n err res = None) \<longrightarrow>
      (\<exists>err res. create_authentication_parameters_from_url env url (Callable cb) correlation_id =
                   ([(err, res)], None) \<and> (err = None) \<noteq> (res = None))) \<and>
   (snd (create_authentication_parameters_from_url env url (Callable cb) correlation_id) = Some x
      \<longrightarrow> (\<exists>n err res. cb n err res = Some x))"
proof (intro conjI impI)
  assume quiet: "\<forall>n err res. cb n err res = None"
  show "\<exists>err res. create_authentication_parameters_from_url env url (Callable cb) correlation_id =
                   ([(err, res)], None) \<and> (err = None) \<noteq> (res = None)"
    by (simp add: create_authentication_parameters_from_url_def try_body_def invoke_def quiet
        split: sum.splits option.splits)
next
  assume "snd (create_authentication_parameters_from_url env url (Callable cb) correlation_id)
            = Some x"
  then show "\<exists>n err res. cb n err res = Some x"
    by (auto simp: create_authentication_parameters_from_url_def try_body_def invoke_def
        split: sum.splits option.splits prod.splits)
qed

theorem from_url_callback_once_witness:
  "(\<forall>n err res. (\<lambda>n err res. None :: pyexc option) n err res = None) \<and>
   create_authentication_parameters_from_url quiet_collaborators (UrlStr ''https://resource/'')
     (Callable (\<lambda>n err res. None)) ''correlation-id'' =
   ([(None, Some \<lparr>authorization_uri = ''https://login.windows.net/t'', resource = None\<rparr>)],
    None) \<and>
   snd (create_authentication_parameters_from_url quiet_collaborators
          (UrlStr ''https://resource/'')
          (Callable (\<lambda>n err res. Some (OtherException ''callback failed'')))
          ''correlation-id'') = Some (OtherException ''callback failed'') \<and>
   (\<exists>n err res. (\<lambda>n err res. Some (OtherException ''callback failed'')) n
                   (err :: pyexc option) (res :: AuthenticationParameters option) =
                 Some (OtherException ''callback failed''))"
  using
    from_url_callback_once
      [where cb = "\<lambda>n err res. None" and env = quiet_collaborators
         and url = "UrlStr ''https://resource/''" and correlation_id = "''correlation-id''"]
    from_url_callback_once
      [where cb = "\<lambda>n err res. Some (OtherException ''callback failed'')"
         and env = quiet_collaborators and x = "OtherException ''callback failed''"
         and url = "UrlStr ''https://resource/''" and correlation_id = "''correlation-id''"]
  by (simp add: create_authentication_parameters_from_url_def try_body_def challenge_url_of_def
      quiet_collaborators_def invoke_def challenge_response_parameters)

section \<open>The name of the header (C10)\<close>

text \<open>
  C10, as the claim states it, fails: whether the lookup minds the case is up to the header
  mapping. A response with status 401 whose headers are a \<open>CaseInsensitiveDict\<close>, as those
  of the responses of \<open>requests.get\<close> are, and hold the challenge under \<open>WWW-Authenticate\<close>
  only, has its challenge found and parsed.
\<close>

theorem www_authenticate_found_by_case_insensitive_get:
  \<open>create_authentication_parameters_from_response
      \<lparr>truth = True, status_code = Some 401,
       headers = Some (CaseInsensitiveDict
                  [(''WWW-Authenticate'',
                    ''Bearer authorization_uri="https://login.windows.net/t"'')])\<rparr> =
      Inr \<lparr>authorization_uri = ''https://login.windows.net/t'', resource = None\<rparr>\<close>
  by (simp add: create_authentication_parameters_from_response_def UNAUTHORIZED_def
      WWW_AUTHENTICATE_HEADER_def lower_def from_header_uri_only)

text \<open>
  C10, amended. The challenge is looked up with \<open>get\<close> on the exact lowercase key
  \<open>www-authenticate\<close>. For every truthy response with status 401 whose header mapping is a
  \<open>dict\<close>, which compares keys exactly, and holds the challenge under a key that differs
  from \<open>www-authenticate\<close> in case only, and no entry under \<open>www-authenticate\<close> itself, the
  operation fails with the ValueError of a missing challenge.
\<close>

theorem www_authenticate_lookup_is_case_sensitive:
  "truth r \<Longrightarrow> status_code r = Some 401 \<Longrightarrow> headers r = Some (Dict kvs) \<Longrightarrow>
   (k, challenge) \<in> set kvs \<Longrightarrow> map lower k = WWW_AUTHENTICATE_HEADER \<Longrightarrow>
   WWW_AUTHENTICATE_HEADER \<notin> fst ` set kvs \<Longrightarrow>
   WWW_AUTHENTICATE_HEADER = ''www-authenticate'' \<and>
   create_authentication_parameters_from_response r = Inl (ValueError no_challenge_message)"
proof -
  assume r: "truth r" "status_code r = Some 401" "headers r = Some (Dict kvs)"
    and stored: "(k, challenge) \<in> set kvs"
    and absent: "WWW_AUTHENTICATE_HEADER \<notin> fst ` set kvs"
  from stored have "kvs \<noteq> []" by auto
  moreover from absent have "map_of kvs WWW_AUTHENTICATE_HEADER = None"
    by (simp add: map_of_eq_None_iff)
  ultimately show ?thesis
    using r
    by (simp add: create_authentication_parameters_from_response_def UNAUTHORIZED_def
        WWW_AUTHENTICATE_HEADER_def)
qed

theorem www_authenticate_lookup_is_case_sensitive_witness:
  \<open>map lower ''WWW-Authenticate'' = WWW_AUTHENTICATE_HEADER \<and>
    create_authentication_parameters_from_response
      \<lparr>truth = True, status_code = Some 401,
       headers = Some (Dict [(''WWW-Authenticate'',
                              ''Bearer authorization_uri="https://login.windows.net/t"'')])\<rparr> =
      Inl (ValueError no_challenge_message)\<close>
  using
    www_authenticate_lookup_is_case_sensitive
      [where r = \<open>\<lparr>truth = True, status_code = Some 401,
                     headers = Some (Dict [(''WWW-Authenticate'',
                       ''Bearer authorization_uri="https://login.windows.net/t"'')])\<rparr>\<close>
         and kvs = \<open>[(''WWW-Authenticate'',
                      ''Bearer authorization_uri="https://login.windows.net/t"'')]\<close>
         and k = "''WWW-Authenticate''"
         and challenge = \<open>''Bearer authorization_uri="https://login.windows.net/t"''\<close>]
    lower_header_name
  by (simp add: WWW_AUTHENTICATE_HEADER_def)

end
